theory Spec2Isabelle
  imports Main
begin

section \<open>Python values, errors and the WAMP message table\<close>

text \<open>
  A WAMP message is a Python list decoded from a JSON array. Its elements are modelled by
  \<open>json\<close>; JSON numbers with a fraction are left out (no message code or identifier of
  the protocol is one). A raised exception is a value of \<open>error\<close>, one constructor for each
  exception class that the modelled code raises or that Python raises for it. The classes of
  \<^verbatim>\<open>wampy/errors.py\<close> are taken as unrelated to one another: an \<^verbatim>\<open>except C\<close> clause
  catches exactly the error \<open>C\<close>, and \<^verbatim>\<open>except Exception\<close> catches every error but
  \<open>GreenletExit\<close>, which derives from \<^verbatim>\<open>BaseException\<close>.
\<close>

datatype json =
    JNull
  | JBool bool
  | JInt int
  | JStr string
  | JList "json list"
  | JDict "(string \<times> json) list"

type_synonym message = "json list"

datatype error =
    ConnectionError
  | WampError
  | WampProtocolError
  | WampyError
  | IncompleteFrameError
  | GreenletExit
  | SocketTimeout
  | SocketError
  | InvalidHeader
  | IndexError
  | KeyError
  | TypeError
  | ValueError
  | AttributeError
  | AssertionError

text \<open>Python truthiness, as \<^verbatim>\<open>x or {}\<close> and \<^verbatim>\<open>if not x\<close> read it.\<close>

fun truthy :: "json \<Rightarrow> bool" where
  "truthy JNull = False"
| "truthy (JBool b) = b"
| "truthy (JInt n) = (n \<noteq> 0)"
| "truthy (JStr s) = (s \<noteq> [])"
| "truthy (JList xs) = (xs \<noteq> [])"
| "truthy (JDict kvs) = (kvs \<noteq> [])"

text \<open>
  \<^verbatim>\<open>x == n\<close> for an integer constant \<open>n\<close>: an integer equals it by value, \<^verbatim>\<open>True\<close> and
  \<^verbatim>\<open>False\<close> equal 1 and 0, nothing else equals an integer.
\<close>

fun py_eq_int :: "json \<Rightarrow> int \<Rightarrow> bool" where
  "py_eq_int (JInt m) n = (m = n)"
| "py_eq_int (JBool b) n = ((if b then 1 else 0) = n)"
| "py_eq_int _ n = False"

text \<open>
  The key under which a value is looked up in a dictionary whose keys are integers:
  a list or a dictionary is unhashable (\<^verbatim>\<open>TypeError\<close>), a string or \<^verbatim>\<open>None\<close> is a key
  that is never present (\<open>None\<close>).
\<close>

fun int_key :: "json \<Rightarrow> error + int option" where
  "int_key (JInt n) = Inr (Some n)"
| "int_key (JBool b) = Inr (Some (if b then 1 else 0))"
| "int_key JNull = Inr None"
| "int_key (JStr s) = Inr None"
| "int_key (JList xs) = Inl TypeError"
| "int_key (JDict kvs) = Inl TypeError"

text \<open>\<^verbatim>\<open>xs[i]\<close> on a list, \<open>None\<close> standing for \<^verbatim>\<open>IndexError\<close>.\<close>

fun nth_opt :: "'a list \<Rightarrow> nat \<Rightarrow> 'a option" where
  "nth_opt [] i = None"
| "nth_opt (x # xs) 0 = Some x"
| "nth_opt (x # xs) (Suc i) = nth_opt xs i"

text \<open>\<^verbatim>\<open>MESSAGE_TYPE_MAP\<close> of \<^verbatim>\<open>wampy/messages/__init__.py\<close>.\<close>

definition MESSAGE_TYPE_MAP :: "(int \<times> string) list" where
  "MESSAGE_TYPE_MAP =
    [(1, ''HELLO''), (2, ''WELCOME''), (3, ''ABORT''), (4, ''CHALLENGE''),
     (5, ''AUTHENTICATE''), (6, ''GOODBYE''), (8, ''ERROR''), (16, ''PUBLISH''),
     (32, ''SUBSCRIBE''), (33, ''SUBSCRIBED''), (36, ''EVENT''), (48, ''CALL''),
     (50, ''RESULT''), (64, ''REGISTER''), (65, ''REGISTERED''), (66, ''UNREGISTER''),
     (67, ''UNREGISTERED''), (68, ''INVOCATION''), (70, ''YIELD'')]"

text \<open>\<^verbatim>\<open>MESSAGE_TYPE_MAP[x]\<close>: the name, or the error that the subscript raises.\<close>

definition message_type :: "json \<Rightarrow> error + string" where
  "message_type x =
    (case int_key x of
       Inl e \<Rightarrow> Inl e
     | Inr None \<Rightarrow> Inl KeyError
     | Inr (Some n) \<Rightarrow>
         (case map_of MESSAGE_TYPE_MAP n of None \<Rightarrow> Inl KeyError | Some name \<Rightarrow> Inr name))"

text \<open>
  Modelled from the spec: the code constants \<^verbatim>\<open>Message.WELCOME\<close>, \<^verbatim>\<open>Message.ABORT\<close>,
  \<^verbatim>\<open>Message.CHALLENGE\<close>, \<^verbatim>\<open>Message.GOODBYE\<close>, \<^verbatim>\<open>Message.ERROR\<close> and
  \<^verbatim>\<open>Message.RESULT\<close> of \<^verbatim>\<open>wampy/messages/message.py\<close>, which is not among the
  sources. The values are those of the spec's message table, which agree with
  \<open>MESSAGE_TYPE_MAP\<close>.
\<close>

definition WELCOME :: int where "WELCOME = 2"
definition ABORT :: int where "ABORT = 3"
definition CHALLENGE :: int where "CHALLENGE = 4"
definition GOODBYE :: int where "GOODBYE = 6"
definition ERROR :: int where "ERROR = 8"
definition RESULT :: int where "RESULT = 50"

section \<open>Outbound message objects\<close>

text \<open>
  \<^verbatim>\<open>Authenticate.__init__\<close> of \<^verbatim>\<open>wampy/messages/authenticate.py\<close>: the details default
  to the empty dictionary, also when a falsy value is passed.
\<close>

record Authenticate =
  signature :: json
  details :: json
  au_message :: message

definition Authenticate_init :: "json \<Rightarrow> json option \<Rightarrow> Authenticate" where
  "Authenticate_init sig details_dict =
    (let d = (case details_dict of
                None \<Rightarrow> JDict []
              | Some x \<Rightarrow> if truthy x then x else JDict [])
     in \<lparr>signature = sig, details = d, au_message = [JInt 5, sig, d]\<rparr>)"

text \<open>
  The objects that the session sends. \<^verbatim>\<open>Hello(realm, roles)\<close> and
  \<^verbatim>\<open>Goodbye(wamp_code=6)\<close> are classes outside the sources: an object of either is kept as
  the constructor call that made it.
\<close>

datatype message_obj =
    HelloObj string json
  | AuthenticateObj Authenticate
  | GoodbyeObj int

text \<open>
  \<^verbatim>\<open>message.WAMP_CODE\<close>. Modelled from the spec: the codes 1 of \<^verbatim>\<open>Hello\<close> and 6 of
  \<^verbatim>\<open>Goodbye\<close>, whose classes are not among the sources; 5 is in
  \<^verbatim>\<open>authenticate.py\<close>.
\<close>

fun obj_WAMP_CODE :: "message_obj \<Rightarrow> int" where
  "obj_WAMP_CODE (HelloObj r d) = 1"
| "obj_WAMP_CODE (AuthenticateObj a) = 5"
| "obj_WAMP_CODE (GoodbyeObj c) = 6"

text \<open>An argument of a Python call: a message object or a plain value.\<close>

datatype pyval = Obj message_obj | Val json

section \<open>The transport's state\<close>

text \<open>
  What the code writes to the socket, in order: the handshake text given to
  \<^verbatim>\<open>socket.send\<close>, and for each \<^verbatim>\<open>send_websocket_frame(message)\<close> the text that
  \<^verbatim>\<open>ClientFrame\<close> (outside the sources) wraps. \<open>closed\<close> says whether \<^verbatim>\<open>close()\<close> was
  called on the socket; \<open>send_fails\<close> whether the link is in a state where \<^verbatim>\<open>sendall\<close>
  raises.
\<close>

datatype wire = Handshake string | TextFrame string

record sock =
  outbound :: "wire list"
  send_fails :: bool
  closed :: bool

datatype header_value = StatusInfo "string list" | Status int | Field string

record WebSocket =
  host :: string
  port :: nat
  websocket_location :: string
  key :: string
  socket :: "sock option"
  status :: "int option"
  headers :: "string \<rightharpoonup> header_value"

text \<open>\<^verbatim>\<open>WebSocket.send_websocket_frame\<close>: without a socket the attribute access fails.\<close>

definition send_websocket_frame :: "string \<Rightarrow> WebSocket \<Rightarrow> error + WebSocket" where
  "send_websocket_frame text ws =
    (case socket ws of
       None \<Rightarrow> Inl AttributeError
     | Some k \<Rightarrow>
         if send_fails k then Inl SocketError
         else Inr (ws\<lparr>socket := Some (k\<lparr>outbound := outbound k @ [TextFrame text]\<rparr>)\<rparr>))"

section \<open>The session\<close>

text \<open>
  \<^verbatim>\<open>Session\<close> of \<^verbatim>\<open>wampy/session.py\<close>. \<open>connection\<close> tells whether \<^verbatim>\<open>_connection\<close>
  refers to the transport (it is either \<^verbatim>\<open>None\<close> or the object \<open>transport\<close>);
  \<open>managed_thread\<close> is \<open>None\<close> before the dispatcher is spawned and then tells whether
  the green thread is alive; \<open>session_attr\<close> tells whether \<^verbatim>\<open>_disconnet\<close> has
  assigned the attribute \<^verbatim>\<open>session\<close>. \<open>message_queue\<close> lists, in arrival order, the
  messages that the dispatcher has put on the queue or puts on it before a pending wait
  times out: a wait on the empty list is a wait that times out. \<open>waited\<close> logs the
  timeout, in seconds, of every wait the session has made. Logging is left out, except
  where evaluating a log argument can raise.
\<close>

record session =
  realm :: string
  roles :: json
  onchallenge :: "(pyval list \<Rightarrow> error + json) option"
  subscription_map :: "string \<rightharpoonup> json"
  registration_map :: "string \<rightharpoonup> json"
  session_id :: "json option"
  transport :: WebSocket
  connection :: bool
  managed_thread :: "bool option"
  message_queue :: "message list"
  session_attr :: bool
  waited :: "nat list"

text \<open>
  \<^verbatim>\<open>Session.send_message\<close>. \<open>serialize\<close> stands for \<^verbatim>\<open>Message.serialize\<close>, which
  is outside the sources.
\<close>

definition send_message ::
  "(message_obj \<Rightarrow> string) \<Rightarrow> message_obj \<Rightarrow> session \<Rightarrow> error + session" where
  "send_message serialize msg s =
    (case map_of MESSAGE_TYPE_MAP (obj_WAMP_CODE msg) of
       None \<Rightarrow> Inl KeyError
     | Some type_name \<Rightarrow>
         if \<not> connection s then Inl AttributeError
         else (case send_websocket_frame (serialize msg) (transport s) of
                 Inl e \<Rightarrow> Inl e
               | Inr ws \<Rightarrow> Inr (s\<lparr>transport := ws\<rparr>)))"

text \<open>
  \<^verbatim>\<open>Session._wait_for_message\<close>: \<open>None\<close> is \<^verbatim>\<open>eventlet.Timeout\<close>, otherwise the
  first message is taken off the queue.
\<close>

definition wait_for_message :: "nat \<Rightarrow> session \<Rightarrow> message option \<times> session" where
  "wait_for_message timeout s =
    (let s' = s\<lparr>waited := waited s @ [timeout]\<rparr>
     in case message_queue s' of
          [] \<Rightarrow> (None, s')
        | m # q \<Rightarrow> (Some m, s'\<lparr>message_queue := q\<rparr>))"

text \<open>
  \<^verbatim>\<open>Session.recv_message\<close>. The debug line evaluates
  \<^verbatim>\<open>MESSAGE_TYPE_MAP[message[0]]\<close>, which raises on an empty message or a code outside
  the table.
\<close>

definition recv_message :: "nat \<Rightarrow> session \<Rightarrow> (error + message) \<times> session" where
  "recv_message timeout s =
    (case wait_for_message timeout s of
       (None, s') \<Rightarrow> (Inl WampProtocolError, s')
     | (Some m, s') \<Rightarrow>
         (case m of
            [] \<Rightarrow> (Inl IndexError, s')
          | c # _ \<Rightarrow>
              (case message_type c of
                 Inl e \<Rightarrow> (Inl e, s')
               | Inr name \<Rightarrow> (Inr m, s'))))"

text \<open>
  The messages at which that debug line does not raise: the first element is a code of
  \<open>MESSAGE_TYPE_MAP\<close>.
\<close>

definition known_code :: "message \<Rightarrow> bool" where
  "known_code m =
    (case m of
       [] \<Rightarrow> False
     | c # _ \<Rightarrow> (case message_type c of Inl e \<Rightarrow> False | Inr name \<Rightarrow> True))"

text \<open>
  The end of \<^verbatim>\<open>_say_hello\<close>, from the comment \<^verbatim>\<open>response message must be either WELCOME
  or ABORT\<close> on: the check of the code, the assignment of \<^verbatim>\<open>session_id\<close> and the
  return, shared by the path with and the path without a challenge.
\<close>

definition hello_outcome ::
  "json \<Rightarrow> json \<Rightarrow> message \<Rightarrow> session \<Rightarrow> (error + message) \<times> session" where
  "hello_outcome wamp_code sid response s =
    (if \<not> (py_eq_int wamp_code WELCOME \<or> py_eq_int wamp_code ABORT)
     then (Inl WampError, s)
     else (Inr response, s\<lparr>session_id := Some sid\<rparr>))"

text \<open>
  \<^verbatim>\<open>Session._say_hello\<close> up to the comment: HELLO is sent, one message is received,
  and a CHALLENGE is answered with AUTHENTICATE and followed by a second receive. The
  result is the last response with the two variables unpacked from it. The unpacking
  \<^verbatim>\<open>wamp_code, session_id, _ = response\<close> raises \<^verbatim>\<open>ValueError\<close> unless the response has
  exactly three elements. The callback is called with one argument, the variable
  \<^verbatim>\<open>message\<close>, which at that point holds the \<^verbatim>\<open>Hello\<close> object.
\<close>

definition hello_exchange ::
  "(message_obj \<Rightarrow> string) \<Rightarrow> session \<Rightarrow> (error + json \<times> json \<times> message) \<times> session" where
  "hello_exchange serialize s =
    (let msg = HelloObj (realm s) (roles s) in
     case send_message serialize msg s of
       Inl e \<Rightarrow> (Inl e, s)
     | Inr s1 \<Rightarrow>
     (case recv_message 5 s1 of
       (Inl e, s2) \<Rightarrow> (Inl e, s2)
     | (Inr response, s2) \<Rightarrow>
     (case response of
       [wamp_code, sid, u] \<Rightarrow>
         if py_eq_int wamp_code CHALLENGE then
           (case onchallenge s2 of
              None \<Rightarrow> (Inl WampError, s2)
            | Some cb \<Rightarrow>
            (case cb [Obj msg] of
              Inl e \<Rightarrow> (Inl e, s2)
            | Inr sig \<Rightarrow>
            (case send_message serialize (AuthenticateObj (Authenticate_init sig None)) s2 of
              Inl e \<Rightarrow> (Inl e, s2)
            | Inr s3 \<Rightarrow>
            (case recv_message 5 s3 of
              (Inl e, s4) \<Rightarrow> (Inl e, s4)
            | (Inr response', s4) \<Rightarrow>
            (case response' of
              [wamp_code', sid', u'] \<Rightarrow> (Inr (wamp_code', sid', response'), s4)
            | _ \<Rightarrow> (Inl ValueError, s4))))))
         else (Inr (wamp_code, sid, response), s2)
     | _ \<Rightarrow> (Inl ValueError, s2))))"

text \<open>\<^verbatim>\<open>Session._say_hello\<close>: the exchange, then the check of the last response.\<close>

definition say_hello ::
  "(message_obj \<Rightarrow> string) \<Rightarrow> session \<Rightarrow> (error + message) \<times> session" where
  "say_hello serialize s =
    (case hello_exchange serialize s of
       (Inl e, s') \<Rightarrow> (Inl e, s')
     | (Inr (wamp_code, sid, response), s') \<Rightarrow> hello_outcome wamp_code sid response s')"

text \<open>
  \<^verbatim>\<open>Session._say_goodbye\<close>: a failed send is logged and nothing else happens; after a
  send the wait is \<^verbatim>\<open>recv_message(timeout=2)\<close>, and \<^verbatim>\<open>WampProtocolError\<close>, from the
  timeout or from a reply that is not GOODBYE, is swallowed.
\<close>

definition say_goodbye ::
  "(message_obj \<Rightarrow> string) \<Rightarrow> session \<Rightarrow> (error + unit) \<times> session" where
  "say_goodbye serialize s =
    (case send_message serialize (GoodbyeObj 6) s of
       Inl exc \<Rightarrow> (if exc = GreenletExit then (Inl exc, s) else (Inr (), s))
     | Inr s1 \<Rightarrow>
         (case recv_message 2 s1 of
            (Inl e, s2) \<Rightarrow> (if e = WampProtocolError then (Inr (), s2) else (Inl e, s2))
          | (Inr m, s2) \<Rightarrow>
              (case m of
                 [] \<Rightarrow> (Inl IndexError, s2)
               | c # _ \<Rightarrow>
                   if \<not> py_eq_int c GOODBYE then (Inr (), s2) else (Inr (), s2))))"

text \<open>
  \<^verbatim>\<open>Session._disconnet\<close>: kills the dispatcher's green thread and forgets the
  connection. Nothing here, and nothing in the transport, calls \<^verbatim>\<open>close()\<close> on the
  socket.
\<close>

definition disconnet :: "session \<Rightarrow> error + session" where
  "disconnet s =
    (case managed_thread s of
       None \<Rightarrow> Inl AttributeError
     | Some alive \<Rightarrow>
         Inr (s\<lparr>managed_thread := Some False, connection := False, session_attr := True\<rparr>))"

text \<open>\<^verbatim>\<open>Session.end\<close>.\<close>

definition end_session ::
  "(message_obj \<Rightarrow> string) \<Rightarrow> session \<Rightarrow> (error + unit) \<times> session" where
  "end_session serialize s =
    (case say_goodbye serialize s of
       (Inl e, s1) \<Rightarrow> (Inl e, s1)
     | (Inr u, s1) \<Rightarrow>
         (case disconnet s1 of
            Inl e \<Rightarrow> (Inl e, s1)
          | Inr s2 \<Rightarrow>
              (Inr (), s2\<lparr>subscription_map := Map.empty,
                          registration_map := Map.empty,
                          session_id := None\<rparr>)))"

section \<open>The caller proxies\<close>

text \<open>
  \<^verbatim>\<open>wampy/roles/caller.py\<close>. \<^verbatim>\<open>Call\<close> and the client's
  \<^verbatim>\<open>send_message_and_wait_for_response\<close> are outside the sources: a \<^verbatim>\<open>Call\<close> object
  is kept as the constructor call that made it, and the client's method is the parameter
  \<open>swr\<close>, acting on a state \<open>'w\<close> of its own.
\<close>

datatype call_obj = Call string "json list" "(string \<times> json) list"

text \<open>\<^verbatim>\<open>results[0]\<close> on a decoded JSON value.\<close>

fun first_item :: "json \<Rightarrow> error + json" where
  "first_item (JList []) = Inl IndexError"
| "first_item (JList (x # xs)) = Inr x"
| "first_item (JStr []) = Inl IndexError"
| "first_item (JStr (c # cs)) = Inr (JStr [c])"
| "first_item (JDict kvs) = Inl KeyError"
| "first_item JNull = Inl TypeError"
| "first_item (JBool b) = Inl TypeError"
| "first_item (JInt n) = Inl TypeError"

text \<open>\<^verbatim>\<open>CallProxy.__call__\<close>, from the response on.\<close>

definition call_reply :: "message \<Rightarrow> error + json" where
  "call_reply response =
    (case response of
       [] \<Rightarrow> Inl IndexError
     | wamp_code # _ \<Rightarrow>
         if py_eq_int wamp_code ERROR then Inr (JList response)
         else if py_eq_int wamp_code RESULT then
           (case nth_opt response 3 of
              None \<Rightarrow> Inl IndexError
            | Some results \<Rightarrow> first_item results)
         else Inl WampProtocolError)"

text \<open>\<^verbatim>\<open>CallProxy.__call__\<close>.\<close>

definition CallProxy_call ::
  "(call_obj \<Rightarrow> 'w \<Rightarrow> (error + message) \<times> 'w) \<Rightarrow>
   string \<Rightarrow> json list \<Rightarrow> (string \<times> json) list \<Rightarrow> 'w \<Rightarrow> (error + json) \<times> 'w" where
  "CallProxy_call swr procedure args kwargs w =
    (case swr (Call procedure args kwargs) w of
       (Inl e, w') \<Rightarrow> (Inl e, w')
     | (Inr response, w') \<Rightarrow> (call_reply response, w'))"

text \<open>
  The \<^verbatim>\<open>wrapper\<close> of \<^verbatim>\<open>RpcProxy.__getattr__\<close>, from the response on. The arguments
  of the exception are evaluated before it is raised: \<^verbatim>\<open>MESSAGE_TYPE_MAP[wamp_code]\<close>,
  then \<^verbatim>\<open>response[5]\<close>.
\<close>

definition rpc_reply :: "message \<Rightarrow> error + json" where
  "rpc_reply response =
    (case response of
       [] \<Rightarrow> Inl IndexError
     | wamp_code # _ \<Rightarrow>
         if \<not> py_eq_int wamp_code RESULT then
           (case message_type wamp_code of
              Inl e \<Rightarrow> Inl e
            | Inr name \<Rightarrow>
                (case nth_opt response 5 of
                   None \<Rightarrow> Inl IndexError
                 | Some x \<Rightarrow> Inl WampProtocolError))
         else
           (case nth_opt response 3 of
              None \<Rightarrow> Inl IndexError
            | Some results \<Rightarrow> first_item results))"

text \<open>\<^verbatim>\<open>RpcProxy.__getattr__(name)\<close> applied to the arguments of the call.\<close>

definition RpcProxy_wrapper ::
  "(call_obj \<Rightarrow> 'w \<Rightarrow> (error + message) \<times> 'w) \<Rightarrow>
   string \<Rightarrow> json list \<Rightarrow> (string \<times> json) list \<Rightarrow> 'w \<Rightarrow> (error + json) \<times> 'w" where
  "RpcProxy_wrapper swr name args kwargs w =
    (case swr (Call name args kwargs) w of
       (Inl e, w') \<Rightarrow> (Inl e, w')
     | (Inr response, w') \<Rightarrow> (rpc_reply response, w'))"

section \<open>The message handler\<close>

text \<open>
  The message classes that \<^verbatim>\<open>wampy/messages/handlers/default.py\<close> imports.
\<close>

datatype msg_class =
    Goodbye | Error | Event | Invocation | Registered | Result | Subscribed
  | Welcome | Yield | Challenge

text \<open>
  \<^verbatim>\<open>cls.WAMP_CODE\<close>. Modelled from the spec: the codes of the classes other than
  \<^verbatim>\<open>Challenge\<close>, which are not among the sources; the values are those of the spec's
  message table for the message of the class's name.
\<close>

fun WAMP_CODE :: "msg_class \<Rightarrow> int" where
  "WAMP_CODE Welcome = 2"
| "WAMP_CODE Challenge = 4"
| "WAMP_CODE Goodbye = 6"
| "WAMP_CODE Error = 8"
| "WAMP_CODE Subscribed = 33"
| "WAMP_CODE Event = 36"
| "WAMP_CODE Result = 50"
| "WAMP_CODE Registered = 65"
| "WAMP_CODE Invocation = 68"
| "WAMP_CODE Yield = 70"

text \<open>
  \<^verbatim>\<open>Challenge.__init__\<close> of \<^verbatim>\<open>wampy/messages/challenge.py\<close>, called with the
  elements of the message as its arguments: any number of arguments other than three is a
  \<^verbatim>\<open>TypeError\<close>.
\<close>

record Challenge_msg =
  authmethod :: json
  ch_details :: json
  ch_message :: message

definition Challenge_init :: "message \<Rightarrow> error + Challenge_msg" where
  "Challenge_init args =
    (case args of
       [wamp_code, am, details_dict] \<Rightarrow>
         if \<not> py_eq_int wamp_code 4 then Inl AssertionError
         else Inr \<lparr>authmethod = am, ch_details = details_dict,
                   ch_message = [JInt 4, am, details_dict]\<rparr>
     | _ \<Rightarrow> Inl TypeError)"

text \<open>
  The call of \<^verbatim>\<open>message_class\<close> on the elements of the message. The constructors of
  the other classes are the parameter \<open>init_obj\<close>.
\<close>

datatype 'o inbound_obj = ChallengeObj Challenge_msg | OtherObj msg_class 'o

definition construct ::
  "(msg_class \<Rightarrow> message \<Rightarrow> error + 'o) \<Rightarrow> msg_class \<Rightarrow> message \<Rightarrow> error + 'o inbound_obj" where
  "construct init_obj cls msg =
    (if cls = Challenge then
       (case Challenge_init msg of Inl e \<Rightarrow> Inl e | Inr c \<Rightarrow> Inr (ChallengeObj c))
     else
       (case init_obj cls msg of Inl e \<Rightarrow> Inl e | Inr x \<Rightarrow> Inr (OtherObj cls x)))"

record MessageHandler =
  messages_to_handle :: "msg_class list"
  messages :: "int \<rightharpoonup> msg_class"

text \<open>\<^verbatim>\<open>MessageHandler._configure_messages\<close>.\<close>

definition configure_messages :: "msg_class list \<Rightarrow> (int \<rightharpoonup> msg_class)" where
  "configure_messages classes = fold (\<lambda>c d. d(WAMP_CODE c \<mapsto> c)) classes Map.empty"

text \<open>\<^verbatim>\<open>MessageHandler.__init__\<close>.\<close>

definition MessageHandler_init :: "msg_class list option \<Rightarrow> MessageHandler" where
  "MessageHandler_init given =
    (let classes = (case given of
                      None \<Rightarrow> [Welcome, Challenge, Goodbye, Registered, Invocation, Yield,
                                Result, Error, Subscribed, Event]
                    | Some l \<Rightarrow> l)
     in \<lparr>messages_to_handle = classes, messages = configure_messages classes\<rparr>)"

text \<open>
  \<^verbatim>\<open>MessageHandler.handle_message\<close>. The message queue of the handler is the queue of
  the session. \<open>process\<close> stands for the \<^verbatim>\<open>process\<close> methods of the message classes,
  which are outside the sources; through the client they reach the whole session.
  Formatting the \<^verbatim>\<open>WampyError\<close> and the log line both evaluate
  \<^verbatim>\<open>MESSAGE_TYPE_MAP[wamp_code]\<close>.
\<close>

definition handle_message ::
  "(msg_class \<Rightarrow> message \<Rightarrow> error + 'o) \<Rightarrow>
   ('o inbound_obj \<Rightarrow> message \<Rightarrow> session \<Rightarrow> (error + unit) \<times> session) \<Rightarrow>
   MessageHandler \<Rightarrow> message \<Rightarrow> session \<Rightarrow> (error + unit) \<times> session" where
  "handle_message init_obj process h msg s =
    (case msg of
       [] \<Rightarrow> (Inl IndexError, s)
     | wamp_code # _ \<Rightarrow>
     (case int_key wamp_code of
       Inl e \<Rightarrow> (Inl e, s)
     | Inr k \<Rightarrow>
     (case (case k of None \<Rightarrow> None | Some n \<Rightarrow> messages h n) of
       None \<Rightarrow>
         (case message_type wamp_code of
            Inl e \<Rightarrow> (Inl e, s)
          | Inr name \<Rightarrow> (Inl WampyError, s))
     | Some message_class \<Rightarrow>
     (case message_type wamp_code of
       Inl e \<Rightarrow> (Inl e, s)
     | Inr name \<Rightarrow>
     (case construct init_obj message_class msg of
       Inl e \<Rightarrow> (Inl e, s)
     | Inr message_obj \<Rightarrow>
     (case process message_obj msg s of
       (Inl e, s') \<Rightarrow> (Inl e, s')
     | (Inr u, s') \<Rightarrow> (Inr (), s'\<lparr>message_queue := message_queue s' @ [msg]\<rparr>)))))))"

section \<open>The WebSocket connection\<close>

text \<open>
  What successive calls of \<^verbatim>\<open>socket.recv(1)\<close> give: a byte, or an exception. When
  the list is used up the peer has closed the connection and \<^verbatim>\<open>recv\<close> returns no
  bytes. A read that blocks for ever is not modelled. Bytes and characters are not told
  apart: the \<^verbatim>\<open>decode\<close> of a line is the identity.
\<close>

datatype recv_event = Data char | Raises error

definition CR :: char where "CR = CHR 0x0D"
definition LF :: char where "LF = CHR 0x0A"
definition CRLF :: string where "CRLF = [CR, LF]"

text \<open>
  What \<^verbatim>\<open>strip()\<close> removes from a text: among the code points below 128, the
  whitespace of Python is 9 to 13 and 28 to 32.
\<close>

definition is_space :: "char \<Rightarrow> bool" where
  "is_space c = (let n = (of_char c :: nat) in (9 \<le> n \<and> n \<le> 13) \<or> (28 \<le> n \<and> n \<le> 32))"

definition py_strip :: "string \<Rightarrow> string" where
  "py_strip s = rev (dropWhile is_space (rev (dropWhile is_space s)))"

text \<open>\<^verbatim>\<open>s.lower()\<close> on the letters A to Z.\<close>

definition lower_char :: "char \<Rightarrow> char" where
  "lower_char c =
    (let n = (of_char c :: nat) in if 65 \<le> n \<and> n \<le> 90 then char_of (n + 32) else c)"

definition py_lower :: "string \<Rightarrow> string" where
  "py_lower s = map lower_char s"

text \<open>\<^verbatim>\<open>s.split(sep, maxsplit)\<close> for a separator of one character.\<close>

fun py_split :: "char \<Rightarrow> nat \<Rightarrow> string \<Rightarrow> string list" where
  "py_split sep n [] = [[]]"
| "py_split sep n (c # cs) =
    (if 0 < n \<and> c = sep then [] # py_split sep (n - 1) cs
     else (case py_split sep n cs of
             [] \<Rightarrow> [[c]]
           | p # ps \<Rightarrow> (c # p) # ps))"

text \<open>\<^verbatim>\<open>sep.join(xs)\<close>.\<close>

fun py_join :: "string \<Rightarrow> string list \<Rightarrow> string" where
  "py_join sep [] = []"
| "py_join sep [x] = x"
| "py_join sep (x # y # ys) = x @ sep @ py_join sep (y # ys)"

text \<open>
  Modelled from the spec: \<^verbatim>\<open>WEBSOCKET_VERSION\<close> and \<^verbatim>\<open>WEBSOCKET_SUBPROTOCOLS\<close> of
  \<^verbatim>\<open>wampy/constants.py\<close>, which is not among the sources, as \<^verbatim>\<open>format\<close> writes them:
  the spec gives WebSocket version 13 and the subprotocol \<^verbatim>\<open>wamp.2.json\<close>.
\<close>

definition WEBSOCKET_VERSION :: string where "WEBSOCKET_VERSION = ''13''"
definition WEBSOCKET_SUBPROTOCOLS :: string where "WEBSOCKET_SUBPROTOCOLS = ''wamp.2.json''"

text \<open>
  \<^verbatim>\<open>WebSocket.__init__\<close>. \<open>encodestring\<close> is \<^verbatim>\<open>base64.encodestring\<close> and
  \<open>uuid_bytes\<close> the sixteen bytes of \<^verbatim>\<open>uuid.uuid4()\<close>; \<^verbatim>\<open>status\<close> and \<^verbatim>\<open>headers\<close>
  exist only after the upgrade.
\<close>

definition WebSocket_init ::
  "(string \<Rightarrow> string) \<Rightarrow> string \<Rightarrow> string \<Rightarrow> nat \<Rightarrow> string \<Rightarrow> WebSocket" where
  "WebSocket_init encodestring uuid_bytes h p location =
    \<lparr>host = h, port = p,
     websocket_location = dropWhile (\<lambda>c. c = CHR ''/'') location,
     key = py_strip (encodestring uuid_bytes),
     socket = None, status = None, headers = Map.empty\<rparr>"

text \<open>\<^verbatim>\<open>WebSocket._get_handshake_headers\<close>.\<close>

definition get_handshake_headers :: "WebSocket \<Rightarrow> string list" where
  "get_handshake_headers ws =
    [''GET /'' @ websocket_location ws @ '' HTTP/1.1'',
     ''Host: '' @ host ws,
     ''Upgrade: websocket'',
     ''Connection: Upgrade'',
     ''Sec-WebSocket-Key: '' @ key ws,
     ''Origin: wss://'' @ host ws,
     ''Sec-WebSocket-Version: '' @ WEBSOCKET_VERSION,
     ''Sec-WebSocket-Protocol: '' @ WEBSOCKET_SUBPROTOCOLS]"

text \<open>The text that \<^verbatim>\<open>WebSocket._upgrade\<close> sends.\<close>

definition handshake :: "WebSocket \<Rightarrow> string" where
  "handshake ws = py_join CRLF (get_handshake_headers ws) @ CRLF @ CRLF"

text \<open>\<^verbatim>\<open>WebSocket._recv_handshake_response_by_line\<close>, with the bytes received so far.\<close>

fun recv_handshake_response_by_line ::
  "string \<Rightarrow> recv_event list \<Rightarrow> (error + string) \<times> recv_event list" where
  "recv_handshake_response_by_line received_bytes [] = (Inr received_bytes, [])"
| "recv_handshake_response_by_line received_bytes (Raises e # rest) = (Inl e, rest)"
| "recv_handshake_response_by_line received_bytes (Data c # rest) =
    (if c = LF then (Inr (received_bytes @ [c]), rest)
     else recv_handshake_response_by_line (received_bytes @ [c]) rest)"

text \<open>
  \<^verbatim>\<open>WebSocket._read_handshake_response\<close>, with the loop's variables \<^verbatim>\<open>status\<close> and
  \<^verbatim>\<open>headers\<close>. \<open>to_int\<close> is Python's \<^verbatim>\<open>int\<close> on a text, \<open>None\<close> for
  \<^verbatim>\<open>ValueError\<close>. The loop ends at a line that is \<^verbatim>\<open>"\r\n"\<close> or \<^verbatim>\<open>"\n"\<close> and
  nowhere else: \<open>None\<close> is a loop that never ends. The status is never compared
  with 101.
\<close>

partial_function (option) read_handshake_response ::
  "(string \<Rightarrow> int option) \<Rightarrow> recv_event list \<Rightarrow> int option \<Rightarrow> (string \<rightharpoonup> header_value) \<Rightarrow>
   ((error + int option \<times> (string \<rightharpoonup> header_value)) \<times> recv_event list) option" where
  "read_handshake_response to_int events st hdrs =
    (case recv_handshake_response_by_line [] events of
       (Inl e, rest) \<Rightarrow> Some (Inl e, rest)
     | (Inr line, rest) \<Rightarrow>
         if line = [CR, LF] \<or> line = [LF] then Some (Inr (st, hdrs), rest)
         else if py_strip line = [] then read_handshake_response to_int rest st hdrs
         else if st = None \<or> st = Some 0 then
           (case nth_opt (py_split (CHR '' '') 2 (py_strip line)) 1 of
              None \<Rightarrow> Some (Inl IndexError, rest)
            | Some tok \<Rightarrow>
                (case to_int tok of
                   None \<Rightarrow> Some (Inl ValueError, rest)
                 | Some n \<Rightarrow>
                     read_handshake_response to_int rest (Some n)
                       (hdrs(''status_info'' \<mapsto> StatusInfo (py_split (CHR '' '') 2 (py_strip line)),
                           ''status'' \<mapsto> Status n))))
         else
           (case py_split (CHR '':'') 1 (py_strip line) of
              [k, v] \<Rightarrow>
                read_handshake_response to_int rest st
                  (hdrs(py_lower k \<mapsto> Field (py_lower (py_strip v))))
            | _ \<Rightarrow> Some (Inl InvalidHeader, rest)))"

text \<open>
  Two readings of a line of the response, in the words of the loop above. The text that
  the loop gives to \<^verbatim>\<open>int\<close> when it takes the line for the status line: the second
  of the fields that \<^verbatim>\<open>split(" ", 2)\<close> makes of the stripped line (\<open>None\<close> when the
  stripped line is empty or has one field only). And whether the loop passes over the
  line when it takes it for a header line: the stripped line is empty, or
  \<^verbatim>\<open>split(":", 1)\<close> makes two parts of it.
\<close>

definition status_token :: "string \<Rightarrow> string option" where
  "status_token line =
    (if py_strip line = [] then None
     else nth_opt (py_split (CHR '' '') 2 (py_strip line)) 1)"


text \<open>
  \<^verbatim>\<open>WebSocket._connect\<close>: \<open>refused\<close> is the error of the TCP connect, if it fails.
\<close>

definition tcp_connect :: "error option \<Rightarrow> WebSocket \<Rightarrow> error + WebSocket" where
  "tcp_connect refused ws =
    (case refused of
       Some e \<Rightarrow> Inl e
     | None \<Rightarrow> Inr (ws\<lparr>socket := Some \<lparr>outbound = [], send_fails = False, closed = False\<rparr>\<rparr>))"

text \<open>\<^verbatim>\<open>WebSocket._upgrade\<close>.\<close>

definition upgrade ::
  "(string \<Rightarrow> int option) \<Rightarrow> WebSocket \<Rightarrow> recv_event list \<Rightarrow>
   ((error + unit) \<times> WebSocket \<times> recv_event list) option" where
  "upgrade to_int ws events =
    (case socket ws of
       None \<Rightarrow> Some (Inl AttributeError, ws, events)
     | Some k \<Rightarrow>
         if send_fails k then Some (Inl SocketError, ws, events)
         else
           (let ws1 = ws\<lparr>socket := Some (k\<lparr>outbound := outbound k @ [Handshake (handshake ws)]\<rparr>)\<rparr>
            in case read_handshake_response to_int events None Map.empty of
                 None \<Rightarrow> None
               | Some (Inl e, rest) \<Rightarrow> Some (Inl e, ws1, rest)
               | Some (Inr (st, hdrs), rest) \<Rightarrow>
                   Some (Inr (), ws1\<lparr>status := st, headers := hdrs\<rparr>, rest)))"

text \<open>\<^verbatim>\<open>WebSocket.connect\<close>.\<close>

definition connect ::
  "error option \<Rightarrow> (string \<Rightarrow> int option) \<Rightarrow> WebSocket \<Rightarrow> recv_event list \<Rightarrow>
   ((error + unit) \<times> WebSocket \<times> recv_event list) option" where
  "connect refused to_int ws events =
    (case tcp_connect refused ws of
       Inl e \<Rightarrow> Some (Inl e, ws, events)
     | Inr ws1 \<Rightarrow> upgrade to_int ws1 events)"

text \<open>
  \<^verbatim>\<open>Session._connect\<close>: every \<^verbatim>\<open>Exception\<close> of the transport's \<^verbatim>\<open>connect\<close> becomes a
  \<^verbatim>\<open>ConnectionError\<close>; then the dispatcher is spawned and the connection kept.
\<close>

definition session_connect ::
  "error option \<Rightarrow> (string \<Rightarrow> int option) \<Rightarrow> session \<Rightarrow> recv_event list \<Rightarrow>
   ((error + unit) \<times> session \<times> recv_event list) option" where
  "session_connect refused to_int s events =
    (case connect refused to_int (transport s) events of
       None \<Rightarrow> None
     | Some (Inl e, ws, rest) \<Rightarrow>
         Some (Inl (if e = GreenletExit then e else ConnectionError), s\<lparr>transport := ws\<rparr>, rest)
     | Some (Inr u, ws, rest) \<Rightarrow>
         Some (Inr (), s\<lparr>transport := ws, managed_thread := Some True, connection := True\<rparr>,
               rest))"

text \<open>
  A server frame as the dispatcher sees it: its truth value and its payload.
  \<^verbatim>\<open>ServerFrame\<close> itself is outside the sources and a parameter below;
  \<^verbatim>\<open>IncompleteFrameError\<close> is its answer to too few bytes.
\<close>

record frame =
  payload :: message
  frame_truthy :: bool

text \<open>The loop of \<^verbatim>\<open>WebSocket.read_websocket_frame\<close>, with the bytes received so far.\<close>

fun read_frame_loop ::
  "(string \<Rightarrow> error + frame) \<Rightarrow> string \<Rightarrow> recv_event list \<Rightarrow>
   (error + frame) \<times> recv_event list" where
  "read_frame_loop ServerFrame received_bytes [] = (Inl WampProtocolError, [])"
| "read_frame_loop ServerFrame received_bytes (Raises e # rest) = (Inl ConnectionError, rest)"
| "read_frame_loop ServerFrame received_bytes (Data c # rest) =
    (case ServerFrame (received_bytes @ [c]) of
       Inl e \<Rightarrow>
         if e = IncompleteFrameError
         then read_frame_loop ServerFrame (received_bytes @ [c]) rest
         else (Inl e, rest)
     | Inr fr \<Rightarrow> (Inr fr, rest))"

text \<open>
  \<^verbatim>\<open>WebSocket.read_websocket_frame\<close>: without a socket the attribute access fails
  inside the \<^verbatim>\<open>try\<close> and is reported as a \<^verbatim>\<open>ConnectionError\<close>.
\<close>

definition read_websocket_frame ::
  "(string \<Rightarrow> error + frame) \<Rightarrow> WebSocket \<Rightarrow> recv_event list \<Rightarrow>
   (error + frame) \<times> recv_event list" where
  "read_websocket_frame ServerFrame ws events =
    (case socket ws of
       None \<Rightarrow> (Inl ConnectionError, events)
     | Some k \<Rightarrow> read_frame_loop ServerFrame [] events)"

text \<open>
  How the dispatcher's loop ends: by \<^verbatim>\<open>break\<close>, on one of the exceptions it catches,
  or by an exception it does not catch, which ends the green thread.
\<close>

datatype loop_end = Stopped | Died error

definition caught :: "error \<Rightarrow> bool" where
  "caught e = (e = ConnectionError \<or> e = WampProtocolError)"

text \<open>
  A frame that was read leaves fewer events to read, so the dispatcher's loop below
  ends on every list of events.
\<close>

lemma read_frame_loop_shorter:
  "read_frame_loop sf acc events = (Inr fr, rest) \<Longrightarrow> length rest < length events"
  by (induction sf acc events rule: read_frame_loop.induct)
     (auto split: sum.splits if_splits)

lemma read_websocket_frame_shorter:
  "read_websocket_frame sf ws events = (Inr fr, rest) \<Longrightarrow> length rest < length events"
  by (auto simp: read_websocket_frame_def split: option.splits dest: read_frame_loop_shorter)

text \<open>
  \<^verbatim>\<open>connection_handler\<close> of \<^verbatim>\<open>Session._listen_on_connection\<close>: the loop of the
  dispatcher's green thread. \<open>message_handler\<close> is \<^verbatim>\<open>self.message_handler\<close>, for the
  default handler \<open>handle_message init_obj process h\<close>; the connection is the session's
  transport.
\<close>

function connection_handler ::
  "(string \<Rightarrow> error + frame) \<Rightarrow> (message \<Rightarrow> session \<Rightarrow> (error + unit) \<times> session) \<Rightarrow>
   recv_event list \<Rightarrow> session \<Rightarrow> loop_end \<times> recv_event list \<times> session" where
  "connection_handler ServerFrame message_handler events s =
    (case read_websocket_frame ServerFrame (transport s) events of
       (Inl e, rest) \<Rightarrow> (if caught e then Stopped else Died e, rest, s)
     | (Inr fr, rest) \<Rightarrow>
         if frame_truthy fr then
           (case message_handler (payload fr) s of
              (Inl e, s') \<Rightarrow> (if caught e then Stopped else Died e, rest, s')
            | (Inr u, s') \<Rightarrow> connection_handler ServerFrame message_handler rest s')
         else connection_handler ServerFrame message_handler rest s)"
  by pat_completeness auto
termination
  by (relation "measure (\<lambda>(ServerFrame, message_handler, events, s). length events)")
     (auto dest: read_websocket_frame_shorter [OF sym])

declare connection_handler.simps [simp del]

section \<open>Sample values\<close>

text \<open>
  Concrete values for the parameters and the state, at which the theorems below are
  instantiated: a serializer that writes the name of the message, and after
  AUTHENTICATE a signature that is a text; a connected transport;
  a session with one subscription and one registration, a given challenge callback and a
  given queue.
\<close>

fun sample_serialize :: "message_obj \<Rightarrow> string" where
  "sample_serialize (HelloObj r d) = ''HELLO''"
| "sample_serialize (AuthenticateObj a) =
    ''AUTHENTICATE '' @ (case signature a of JStr t \<Rightarrow> t | _ \<Rightarrow> [])"
| "sample_serialize (GoodbyeObj c) = ''GOODBYE''"

definition sample_transport :: WebSocket where
  "sample_transport =
    \<lparr>host = ''localhost'', port = 8080, websocket_location = ''ws'', key = ''a2V5'',
     socket = Some \<lparr>outbound = [], send_fails = False, closed = False\<rparr>,
     status = Some 101, headers = Map.empty\<rparr>"

definition sample_session ::
  "(pyval list \<Rightarrow> error + json) option \<Rightarrow> message list \<Rightarrow> session" where
  "sample_session cb q =
    \<lparr>realm = ''realm1'', roles = JDict [(''roles'', JDict [(''caller'', JDict [])])],
     onchallenge = cb,
     subscription_map = [''foo'' \<mapsto> JInt 11],
     registration_map = [''get_date'' \<mapsto> JInt 12],
     session_id = None, transport = sample_transport, connection = True,
     managed_thread = Some True, message_queue = q, session_attr = False, waited = []\<rparr>"

text \<open>
  A callback with the two parameters that the spec gives it, \<^verbatim>\<open>on_challenge(method,
  extra)\<close>: Python raises \<^verbatim>\<open>TypeError\<close> when it is called with any other number of
  arguments.
\<close>

definition two_argument_callback :: "pyval list \<Rightarrow> error + json" where
  "two_argument_callback args =
    (case args of
       [Val method, Val extra] \<Rightarrow> Inr (JList [JStr ''signed'', method, extra])
     | _ \<Rightarrow> Inl TypeError)"

text \<open>A callback with one parameter, which signs with the realm of the message it is given.\<close>

definition one_argument_callback :: "pyval list \<Rightarrow> error + json" where
  "one_argument_callback args =
    (case args of
       [Obj (HelloObj r d)] \<Rightarrow> Inr (JStr r)
     | [x] \<Rightarrow> Inr (JStr ''signed'')
     | _ \<Rightarrow> Inl TypeError)"

text \<open>A client whose \<^verbatim>\<open>send_message_and_wait_for_response\<close> returns a given reply.\<close>

definition fixed_reply :: "message \<Rightarrow> call_obj \<Rightarrow> unit \<Rightarrow> (error + message) \<times> unit" where
  "fixed_reply reply c w = (Inr reply, w)"




text \<open>A frame decoder that needs two bytes, and message classes that do nothing.\<close>

definition sample_ServerFrame :: "string \<Rightarrow> error + frame" where
  "sample_ServerFrame bytes =
    (if length bytes < 2 then Inl IncompleteFrameError
     else Inr \<lparr>payload = [JInt 2, JInt 7, JDict []], frame_truthy = True\<rparr>)"

definition sample_init :: "msg_class \<Rightarrow> message \<Rightarrow> error + message" where
  "sample_init cls msg = Inr msg"

definition sample_process ::
  "message inbound_obj \<Rightarrow> message \<Rightarrow> session \<Rightarrow> (error + unit) \<times> session" where
  "sample_process obj msg s = (Inr (), s)"

text \<open>The ERROR reply of the router to a call for a registration that does not exist.\<close>

definition no_such_registration :: message where
  "no_such_registration =
    [JInt 8, JInt 48, JInt 1, JDict [], JStr ''wamp.error.no_such_registration'',
     JList [JStr ''no registration with ID spam exists on this dealer'']]"

section \<open>The HELLO exchange\<close>

lemmas session_eval =
  hello_exchange_def say_hello_def hello_outcome_def send_message_def recv_message_def
  wait_for_message_def send_websocket_frame_def sample_session_def sample_transport_def
  message_type_def MESSAGE_TYPE_MAP_def WELCOME_def ABORT_def CHALLENGE_def GOODBYE_def
  Authenticate_init_def say_goodbye_def disconnet_def end_session_def

lemma hello_exchange_shape:
  "hello_exchange ser s = (Inr (c, sid, r), s') \<Longrightarrow> \<exists>u. r = [c, sid, u]"
  unfolding hello_exchange_def Let_def
  by (auto split: sum.splits prod.splits list.splits option.splits if_splits)

text \<open>
  C1, as the code has it. When the exchange ends with a response \<open>r\<close> (of three
  elements: the code \<open>c\<close>, then \<open>sid\<close>): on WELCOME \<^verbatim>\<open>_say_hello\<close> sets
  \<^verbatim>\<open>session_id\<close> to the second element and returns the response; on ABORT it does not
  fail but returns the ABORT message to its caller; on every other code it raises
  \<^verbatim>\<open>WampError\<close>, the library's general error, and leaves the session as it was.
\<close>

theorem say_hello_terminal_response:
  assumes "hello_exchange ser s = (Inr (c, sid, r), s')"
  shows "(\<exists>u. r = [c, sid, u])
       \<and> (py_eq_int c WELCOME \<longrightarrow> say_hello ser s = (Inr r, s'\<lparr>session_id := Some sid\<rparr>))
       \<and> (py_eq_int c ABORT \<longrightarrow> fst (say_hello ser s) = Inr r)
       \<and> (\<not> py_eq_int c WELCOME \<and> \<not> py_eq_int c ABORT \<longrightarrow>
            say_hello ser s = (Inl WampError, s'))"
  using assms hello_exchange_shape [OF assms]
  by (simp add: say_hello_def hello_outcome_def)

text \<open>The theorem at a session whose router answers HELLO with \<^verbatim>\<open>[2, 7, {}]\<close>.\<close>

theorem say_hello_terminal_response_witness:
  "fst (hello_exchange sample_serialize (sample_session None [[JInt 2, JInt 7, JDict []]]))
     = Inr (JInt 2, JInt 7, [JInt 2, JInt 7, JDict []])
   \<and> fst (say_hello sample_serialize (sample_session None [[JInt 2, JInt 7, JDict []]]))
     = Inr [JInt 2, JInt 7, JDict []]
   \<and> session_id (snd (say_hello sample_serialize (sample_session None [[JInt 2, JInt 7, JDict []]])))
     = Some (JInt 7)"
proof -
  let ?s = "sample_session None [[JInt 2, JInt 7, JDict []]]"
  have h: "hello_exchange sample_serialize ?s
    = (Inr (JInt 2, JInt 7, [JInt 2, JInt 7, JDict []]), snd (hello_exchange sample_serialize ?s))"
    by (simp add: session_eval)
  have a: "fst (hello_exchange sample_serialize ?s)
    = Inr (JInt 2, JInt 7, [JInt 2, JInt 7, JDict []])"
    by (simp add: session_eval)
  from say_hello_terminal_response [OF h]
  have w: "say_hello sample_serialize ?s
    = (Inr [JInt 2, JInt 7, JDict []],
       (snd (hello_exchange sample_serialize ?s))\<lparr>session_id := Some (JInt 7)\<rparr>)"
    by (simp add: WELCOME_def)
  show ?thesis
    unfolding w using a by simp
qed

text \<open>
  C1 as it is stated fails: when the router answers HELLO with
  \<^verbatim>\<open>[3, {}, "wamp.error.no_such_realm"]\<close>, \<^verbatim>\<open>_say_hello\<close> raises nothing and returns
  the ABORT message.
\<close>

theorem say_hello_abort_counterexample:
  "fst (say_hello sample_serialize
     (sample_session None [[JInt 3, JDict [], JStr ''wamp.error.no_such_realm'']]))
   = Inr [JInt 3, JDict [], JStr ''wamp.error.no_such_realm'']"
  by (simp add: session_eval)

subsection \<open>The challenge\<close>

text \<open>
  What the code does on a CHALLENGE. Without a callback it raises \<^verbatim>\<open>WampError\<close>.
  With one, the callback is called with the HELLO message object as its only argument;
  what it returns is the signature of an AUTHENTICATE with empty details, which is sent
  before the next message is received.
\<close>

lemma hello_exchange_no_callback:
  assumes "send_message ser (HelloObj (realm s) (roles s)) s = Inr s1"
    and "recv_message 5 s1 = (Inr [c, m, x], s2)"
    and "py_eq_int c CHALLENGE"
    and "onchallenge s2 = None"
  shows "hello_exchange ser s = (Inl WampError, s2)"
  using assms by (simp add: hello_exchange_def)

lemma hello_exchange_challenge:
  assumes "send_message ser (HelloObj (realm s) (roles s)) s = Inr s1"
    and "recv_message 5 s1 = (Inr [c, m, x], s2)"
    and "py_eq_int c CHALLENGE"
    and "onchallenge s2 = Some cb"
    and "cb [Obj (HelloObj (realm s) (roles s))] = Inr sig"
    and "send_message ser
           (AuthenticateObj \<lparr>signature = sig, details = JDict [],
                             au_message = [JInt 5, sig, JDict []]\<rparr>) s2 = Inr s3"
    and "recv_message 5 s3 = (Inr [c', sid', u'], s4)"
  shows "hello_exchange ser s = (Inr (c', sid', [c', sid', u']), s4)"
  using assms by (simp add: hello_exchange_def Authenticate_init_def Let_def)

text \<open>
  A callback of one parameter is given the HELLO message: the signature it computes from
  its argument is the realm, whatever the challenge holds.
\<close>

lemma say_hello_one_argument_callback:
  "map_option outbound (socket (transport (snd (hello_exchange sample_serialize
         (sample_session (Some one_argument_callback)
            [[JInt 4, JStr ''ticket'', JDict []], [JInt 2, JInt 7, JDict []]])))))
     = Some [TextFrame ''HELLO'', TextFrame ''AUTHENTICATE realm1'']"
  by (simp add: session_eval one_argument_callback_def Let_def)

text \<open>
  C2 at a failing input. The session has the callback \<^verbatim>\<open>on_challenge(method, extra)\<close>
  that the claim describes, and the router answers HELLO with the challenge
  \<^verbatim>\<open>[4, "ticket", {}]\<close>: the code calls the callback with one argument, the HELLO
  message, so the call raises \<^verbatim>\<open>TypeError\<close> and no AUTHENTICATE is sent; only the
  HELLO frame has gone out.
\<close>

theorem say_hello_two_argument_callback:
  "fst (say_hello sample_serialize
         (sample_session (Some two_argument_callback)
            [[JInt 4, JStr ''ticket'', JDict []], [JInt 2, JInt 7, JDict []]]))
     = Inl TypeError
   \<and> map_option outbound (socket (transport (snd (say_hello sample_serialize
         (sample_session (Some two_argument_callback)
            [[JInt 4, JStr ''ticket'', JDict []], [JInt 2, JInt 7, JDict []]])))))
     = Some [TextFrame ''HELLO'']"
  by (simp add: session_eval two_argument_callback_def)

section \<open>GOODBYE and the end of the session\<close>

text \<open>
  C8. On a session whose connection can send and to which no message comes before the
  timeout, \<^verbatim>\<open>_say_goodbye\<close> sends the GOODBYE message, makes one wait with a timeout
  of 2 seconds, and returns normally. The wait is bounded by the timeout it is given;
  elapsed time itself is not modelled.
\<close>

theorem say_goodbye_timeout:
  assumes "connection s" and "socket (transport s) = Some k" and "\<not> send_fails k"
    and "message_queue s = []"
  shows "say_goodbye ser s =
    (Inr (), s\<lparr>transport := (transport s)\<lparr>socket :=
                  Some (k\<lparr>outbound := outbound k @ [TextFrame (ser (GoodbyeObj 6))]\<rparr>)\<rparr>,
              waited := waited s @ [2]\<rparr>)"
  using assms
  by (simp add: say_goodbye_def send_message_def send_websocket_frame_def recv_message_def
        wait_for_message_def MESSAGE_TYPE_MAP_def)

theorem say_goodbye_timeout_witness:
  "connection (sample_session None [])
   \<and> socket (transport (sample_session None []))
       = Some \<lparr>outbound = [], send_fails = False, closed = False\<rparr>
   \<and> message_queue (sample_session None []) = []
   \<and> fst (say_goodbye sample_serialize (sample_session None [])) = Inr ()
   \<and> waited (snd (say_goodbye sample_serialize (sample_session None []))) = [2]
   \<and> map_option outbound (socket (transport (snd (say_goodbye sample_serialize
         (sample_session None [])))))
       = Some [TextFrame ''GOODBYE'']"
proof -
  let ?s = "sample_session None []"
  let ?k = "\<lparr>outbound = [], send_fails = False, closed = False\<rparr>"
  have c: "connection ?s" and k: "socket (transport ?s) = Some ?k" and q: "message_queue ?s = []"
    by (simp_all add: sample_session_def sample_transport_def)
  have f: "\<not> send_fails ?k" by simp
  from say_goodbye_timeout [OF c k f q, of sample_serialize] c k q
  show ?thesis by (simp add: sample_session_def)
qed

text \<open>
  \<^verbatim>\<open>_say_goodbye\<close> returns normally in every other case too, as long as the oldest
  message on the queue, if there is one, has a code of the table: it changes the
  transport's log of frames, the queue and the log of waits, and nothing else; the socket
  is as open as it was.
\<close>

lemma say_goodbye_frame:
  assumes "case message_queue s of [] \<Rightarrow> True | m # q \<Rightarrow> known_code m"
  shows "\<exists>t q w. say_goodbye ser s = (Inr (), s\<lparr>transport := t, message_queue := q, waited := w\<rparr>)
          \<and> map_option closed (socket t) = map_option closed (socket (transport s))"
proof (cases "send_message ser (GoodbyeObj 6) s")
  case (Inl e)
  then have "e \<noteq> GreenletExit"
    by (auto simp: send_message_def send_websocket_frame_def
             split: option.splits if_splits sum.splits)
  with Inl have "say_goodbye ser s = (Inr (), s)"
    by (simp add: say_goodbye_def)
  moreover have "s = s\<lparr>transport := transport s, message_queue := message_queue s, waited := waited s\<rparr>"
    by simp
  ultimately show ?thesis by metis
next
  case (Inr s1)
  then obtain t where s1: "s1 = s\<lparr>transport := t\<rparr>"
    and t: "map_option closed (socket t) = map_option closed (socket (transport s))"
    by (auto simp: send_message_def send_websocket_frame_def
             split: option.splits if_splits sum.splits)
  show ?thesis
  proof (cases "message_queue s")
    case Nil
    with Inr s1 have "say_goodbye ser s
      = (Inr (), s\<lparr>transport := t, message_queue := [], waited := waited s @ [2]\<rparr>)"
      by (simp add: say_goodbye_def recv_message_def wait_for_message_def)
    with t show ?thesis by blast
  next
    case (Cons m q)
    with assms have "known_code m" by simp
    with Inr s1 Cons have "say_goodbye ser s
      = (Inr (), s\<lparr>transport := t, message_queue := q, waited := waited s @ [2]\<rparr>)"
      by (auto simp: say_goodbye_def recv_message_def wait_for_message_def known_code_def
               split: list.splits sum.splits)
    with t show ?thesis by blast
  qed
qed

text \<open>On a session that has ended, \<^verbatim>\<open>end\<close> changes nothing and returns normally.\<close>

lemma end_session_ended:
  assumes "\<not> connection s" and "managed_thread s = Some False" and "session_attr s"
    and "subscription_map s = Map.empty" and "registration_map s = Map.empty"
    and "session_id s = None"
  shows "end_session ser s = (Inr (), s)"
proof -
  have "say_goodbye ser s = (Inr (), s)"
    using assms(1) by (simp add: say_goodbye_def send_message_def MESSAGE_TYPE_MAP_def)
  moreover have "disconnet s = Inr s"
    using assms by (simp add: disconnet_def)
  ultimately show ?thesis
    using assms by (simp add: end_session_def)
qed

text \<open>On a session whose dispatcher was never spawned, \<^verbatim>\<open>end\<close> raises.\<close>

lemma end_session_not_begun:
  assumes "managed_thread s = None" and "\<not> connection s"
  shows "fst (end_session ser s) = Inl AttributeError"
  using assms
  by (simp add: end_session_def say_goodbye_def send_message_def disconnet_def
        MESSAGE_TYPE_MAP_def)

text \<open>
  Every message that \<^verbatim>\<open>handle_message\<close> puts on the queue has a code of the table,
  whatever the classes of the handler: the log line before the put has looked it up.
\<close>

lemma handle_message_queues_known:
  assumes "handle_message init_obj process h msg s = (Inr (), s')"
  shows "known_code msg"
  using assms
  by (auto simp: handle_message_def known_code_def
           split: list.splits sum.splits option.splits prod.splits)

text \<open>
  When the oldest queued message has a code outside the table, here \<^verbatim>\<open>[7]\<close>, the log
  line of \<^verbatim>\<open>recv_message\<close> raises \<^verbatim>\<open>KeyError\<close> inside \<^verbatim>\<open>_say_goodbye\<close> and
  \<^verbatim>\<open>end\<close> resets nothing.
\<close>

lemma end_session_unknown_code:
  "fst (end_session sample_serialize (sample_session None [[JInt 7]])) = Inl KeyError
   \<and> subscription_map (snd (end_session sample_serialize (sample_session None [[JInt 7]])))
        ''foo'' = Some (JInt 11)"
  by (simp add: end_session_def say_goodbye_def send_message_def recv_message_def
        wait_for_message_def send_websocket_frame_def message_type_def
        sample_session_def sample_transport_def MESSAGE_TYPE_MAP_def)

text \<open>
  C4, as the code has it. On a session whose dispatcher has been spawned and whose
  oldest queued message, if there is one, has a code of the table, \<^verbatim>\<open>end\<close> returns
  normally; afterwards
  \<^verbatim>\<open>subscription_map\<close> and \<^verbatim>\<open>registration_map\<close> are empty, \<^verbatim>\<open>session_id\<close> is unset, the
  session has dropped its reference to the connection and the dispatcher's thread is
  killed; the socket is exactly as closed as it was before; and a second \<^verbatim>\<open>end\<close>
  returns normally and leaves that state unchanged.
\<close>

theorem end_session_resets:
  assumes "managed_thread s = Some alive"
    and "case message_queue s of [] \<Rightarrow> True | m # q \<Rightarrow> known_code m"
  shows "fst (end_session ser s) = Inr ()
       \<and> subscription_map (snd (end_session ser s)) = Map.empty
       \<and> registration_map (snd (end_session ser s)) = Map.empty
       \<and> session_id (snd (end_session ser s)) = None
       \<and> \<not> connection (snd (end_session ser s))
       \<and> managed_thread (snd (end_session ser s)) = Some False
       \<and> map_option closed (socket (transport (snd (end_session ser s))))
           = map_option closed (socket (transport s))
       \<and> end_session ser (snd (end_session ser s)) = (Inr (), snd (end_session ser s))"
proof -
  from say_goodbye_frame [OF assms(2)] obtain t q w where
    g: "say_goodbye ser s = (Inr (), s\<lparr>transport := t, message_queue := q, waited := w\<rparr>)"
    and t: "map_option closed (socket t) = map_option closed (socket (transport s))"
    by blast
  let ?s' = "s\<lparr>transport := t, message_queue := q, waited := w,
               managed_thread := Some False, connection := False, session_attr := True,
               subscription_map := Map.empty, registration_map := Map.empty,
               session_id := None\<rparr>"
  have e: "end_session ser s = (Inr (), ?s')"
    using g assms(1) by (simp add: end_session_def disconnet_def)
  have "end_session ser ?s' = (Inr (), ?s')"
    by (rule end_session_ended) simp_all
  with e t show ?thesis by simp
qed

text \<open>
  The theorem at a session on whose queue the router's echo of GOODBYE is waiting.
\<close>

theorem end_session_resets_witness:
  "managed_thread (sample_session None [[JInt 6, JDict [], JStr ''wamp.close.normal'']])
     = Some True
   \<and> known_code [JInt 6, JDict [], JStr ''wamp.close.normal'']
   \<and> subscription_map (sample_session None [[JInt 6, JDict [], JStr ''wamp.close.normal'']])
        ''foo'' = Some (JInt 11)
   \<and> fst (end_session sample_serialize
          (sample_session None [[JInt 6, JDict [], JStr ''wamp.close.normal'']])) = Inr ()
   \<and> subscription_map (snd (end_session sample_serialize
          (sample_session None [[JInt 6, JDict [], JStr ''wamp.close.normal'']]))) = Map.empty
   \<and> \<not> connection (snd (end_session sample_serialize
          (sample_session None [[JInt 6, JDict [], JStr ''wamp.close.normal'']])))
   \<and> end_session sample_serialize (snd (end_session sample_serialize
          (sample_session None [[JInt 6, JDict [], JStr ''wamp.close.normal'']])))
       = (Inr (), snd (end_session sample_serialize
          (sample_session None [[JInt 6, JDict [], JStr ''wamp.close.normal'']])))"
proof -
  let ?s = "sample_session None [[JInt 6, JDict [], JStr ''wamp.close.normal'']]"
  have a: "managed_thread ?s = Some True"
    and c: "subscription_map ?s ''foo'' = Some (JInt 11)"
    by (simp_all add: sample_session_def)
  have k: "known_code [JInt 6, JDict [], JStr ''wamp.close.normal'']"
    by (simp add: known_code_def message_type_def MESSAGE_TYPE_MAP_def)
  have b: "case message_queue ?s of [] \<Rightarrow> True | m # q \<Rightarrow> known_code m"
    using k by (simp add: sample_session_def)
  from end_session_resets [OF a b, of sample_serialize] a k c
  show ?thesis by simp
qed

text \<open>
  C4 as it is stated fails: after \<^verbatim>\<open>end\<close> on a connected session the socket of the
  transport has not been closed.
\<close>

theorem end_session_socket_counterexample:
  "fst (end_session sample_serialize (sample_session None [])) = Inr ()
   \<and> map_option closed (socket (transport (snd (end_session sample_serialize
        (sample_session None []))))) = Some False"
  by (simp add: end_session_def say_goodbye_def disconnet_def send_message_def
        recv_message_def wait_for_message_def send_websocket_frame_def
        sample_session_def sample_transport_def MESSAGE_TYPE_MAP_def)

section \<open>Replies to a call\<close>

lemma error_is_not_result: "py_eq_int c ERROR \<Longrightarrow> \<not> py_eq_int c RESULT"
  by (cases c) (auto simp: ERROR_def RESULT_def split: if_splits)

lemma error_message_type: "py_eq_int c ERROR \<Longrightarrow> message_type c = Inr ''ERROR''"
  by (cases c) (auto simp: ERROR_def message_type_def MESSAGE_TYPE_MAP_def split: if_splits)

text \<open>
  C3, as the code has it. For a reply \<open>c # rest\<close> that the client hands back:
  \<^verbatim>\<open>CallProxy.__call__\<close> returns an ERROR reply itself, as a value; on a RESULT whose
  fourth element is a list with a first element, \<^verbatim>\<open>CallProxy.__call__\<close> and the
  wrapper of \<^verbatim>\<open>RpcProxy\<close> both return that first element; and the wrapper of
  \<^verbatim>\<open>RpcProxy\<close> does not return an ERROR reply but raises, \<^verbatim>\<open>WampProtocolError\<close> when
  the reply has a sixth element and \<^verbatim>\<open>IndexError\<close> when it has not.
\<close>

theorem caller_proxies_reply:
  assumes "swr (Call procedure args kwargs) w = (Inr (c # rest), w')"
  shows "(py_eq_int c ERROR \<longrightarrow>
            CallProxy_call swr procedure args kwargs w = (Inr (JList (c # rest)), w'))
       \<and> (py_eq_int c RESULT \<and> nth_opt (c # rest) 3 = Some (JList (x # xs)) \<longrightarrow>
            CallProxy_call swr procedure args kwargs w = (Inr x, w')
          \<and> RpcProxy_wrapper swr procedure args kwargs w = (Inr x, w'))
       \<and> (py_eq_int c ERROR \<longrightarrow>
            RpcProxy_wrapper swr procedure args kwargs w =
              (Inl (if nth_opt (c # rest) 5 = None then IndexError else WampProtocolError), w'))"
  using assms
  by (auto simp: CallProxy_call_def RpcProxy_wrapper_def call_reply_def rpc_reply_def
        error_is_not_result error_message_type split: option.splits)

text \<open>The theorem at the ERROR reply to \<^verbatim>\<open>wamp.registration.get\<close>.\<close>

theorem caller_proxies_reply_witness:
  "fixed_reply no_such_registration (Call ''wamp.registration.get'' [JStr ''spam''] []) ()
     = (Inr no_such_registration, ())
   \<and> fst (CallProxy_call (fixed_reply no_such_registration)
             ''wamp.registration.get'' [JStr ''spam''] [] ())
     = Inr (JList no_such_registration)"
proof -
  have h: "fixed_reply no_such_registration (Call ''wamp.registration.get'' [JStr ''spam''] []) ()
    = (Inr (JInt 8 # tl no_such_registration), ())"
    by (simp add: fixed_reply_def no_such_registration_def)
  have n: "no_such_registration = JInt 8 # tl no_such_registration"
    by (simp add: no_such_registration_def)
  from caller_proxies_reply
    [of "fixed_reply no_such_registration" "''wamp.registration.get''" "[JStr ''spam'']" "[]"
        "()" "JInt 8" "tl no_such_registration" "()", OF h]
  have
    "CallProxy_call (fixed_reply no_such_registration)
        ''wamp.registration.get'' [JStr ''spam''] [] ()
      = (Inr (JList (JInt 8 # tl no_such_registration)), ())"
    by (simp add: ERROR_def)
  with h n show ?thesis by simp
qed

text \<open>
  C3 as it is stated fails for the second proxy of \<^verbatim>\<open>caller.py\<close>: on that ERROR
  reply the wrapper of \<^verbatim>\<open>RpcProxy\<close> raises \<^verbatim>\<open>WampProtocolError\<close>.
\<close>

theorem rpc_proxy_error_counterexample:
  "fst (RpcProxy_wrapper (fixed_reply no_such_registration) ''get_registration'' [JStr ''spam''] [] ())
     = Inl WampProtocolError"
  by (simp add: RpcProxy_wrapper_def rpc_reply_def fixed_reply_def no_such_registration_def
        RESULT_def message_type_def MESSAGE_TYPE_MAP_def eval_nat_numeral)

section \<open>What the default handler does with a message\<close>

text \<open>The dictionary that \<^verbatim>\<open>_configure_messages\<close> builds from the default classes.\<close>

lemma default_messages:
  "messages (MessageHandler_init None) =
    [2 \<mapsto> Welcome, 4 \<mapsto> Challenge, 6 \<mapsto> Goodbye, 65 \<mapsto> Registered, 68 \<mapsto> Invocation,
     70 \<mapsto> Yield, 50 \<mapsto> Result, 8 \<mapsto> Error, 33 \<mapsto> Subscribed, 36 \<mapsto> Event]"
  by (simp add: MessageHandler_init_def configure_messages_def)

lemma default_messages_dom:
  "dom (messages (MessageHandler_init None)) = {2, 4, 6, 8, 33, 36, 50, 65, 68, 70}"
  unfolding default_messages by auto

lemma default_messages_known:
  assumes "messages (MessageHandler_init None) n = Some cls"
  shows "\<exists>name. message_type (JInt n) = Inr name"
proof -
  from assms have "n \<in> dom (messages (MessageHandler_init None))" by blast
  then have "n \<in> {2, 4, 6, 8, 33, 36, 50, 65, 68, 70}"
    unfolding default_messages_dom .
  then show ?thesis
    by (auto simp: message_type_def MESSAGE_TYPE_MAP_def)
qed

lemma handle_message_accepted:
  assumes "messages h n = Some cls"
    and "message_type (JInt n) = Inr name"
    and "construct init_obj cls (JInt n # rest) = Inr obj"
    and "process obj (JInt n # rest) s = (Inr (), s')"
  shows "handle_message init_obj process h (JInt n # rest) s
          = (Inr (), s'\<lparr>message_queue := message_queue s' @ [JInt n # rest]\<rparr>)"
  using assms by (simp add: handle_message_def)


text \<open>A CHALLENGE of three elements always constructs.\<close>

lemma construct_challenge:
  "construct init_obj Challenge [JInt 4, m, x]
    = Inr (ChallengeObj \<lparr>authmethod = m, ch_details = x, ch_message = [JInt 4, m, x]\<rparr>)"
  by (simp add: construct_def Challenge_init_def)

text \<open>
  C6, as the code has it. WELCOME, CHALLENGE and GOODBYE are codes of the default
  handler: when the message object constructs and its processing returns, the handler
  puts the message at the end of the queue. ABORT is not a code of the default handler
  (\<^verbatim>\<open>wampy.messages\<close> has no class for it): the handler raises \<^verbatim>\<open>WampyError\<close> and
  the session, its queue included, is as before.
\<close>

theorem handle_message_lifecycle:
  "(n \<in> {WELCOME, CHALLENGE, GOODBYE} \<longrightarrow>
      (\<exists>cls. messages (MessageHandler_init None) n = Some cls \<and> WAMP_CODE cls = n
         \<and> (\<forall>obj s'. construct init_obj cls (JInt n # rest) = Inr obj
               \<and> process obj (JInt n # rest) s = (Inr (), s') \<longrightarrow>
               handle_message init_obj process (MessageHandler_init None) (JInt n # rest) s
                 = (Inr (), s'\<lparr>message_queue := message_queue s' @ [JInt n # rest]\<rparr>))))
   \<and> (n = ABORT \<longrightarrow>
        messages (MessageHandler_init None) n = None
        \<and> handle_message init_obj process (MessageHandler_init None) (JInt n # rest) s
            = (Inl WampyError, s))"
proof (intro conjI impI)
  assume "n \<in> {WELCOME, CHALLENGE, GOODBYE}"
  then have m: "messages (MessageHandler_init None) n
      = Some (if n = 2 then Welcome else if n = 4 then Challenge else Goodbye)"
    and t: "\<exists>name. message_type (JInt n) = Inr name"
    unfolding default_messages
    by (auto simp: WELCOME_def CHALLENGE_def GOODBYE_def message_type_def MESSAGE_TYPE_MAP_def)
  from t obtain name where name: "message_type (JInt n) = Inr name" ..
  have c: "WAMP_CODE (if n = 2 then Welcome else if n = 4 then Challenge else Goodbye) = n"
    using \<open>n \<in> {WELCOME, CHALLENGE, GOODBYE}\<close>
    by (auto simp: WELCOME_def CHALLENGE_def GOODBYE_def)
  show "\<exists>cls. messages (MessageHandler_init None) n = Some cls \<and> WAMP_CODE cls = n
         \<and> (\<forall>obj s'. construct init_obj cls (JInt n # rest) = Inr obj
               \<and> process obj (JInt n # rest) s = (Inr (), s') \<longrightarrow>
               handle_message init_obj process (MessageHandler_init None) (JInt n # rest) s
                 = (Inr (), s'\<lparr>message_queue := message_queue s' @ [JInt n # rest]\<rparr>))"
    using m c handle_message_accepted [OF m name] by blast
next
  assume "n = ABORT"
  then show "messages (MessageHandler_init None) n = None"
    unfolding default_messages by (simp add: ABORT_def)
next
  assume "n = ABORT"
  then show "handle_message init_obj process (MessageHandler_init None) (JInt n # rest) s
            = (Inl WampyError, s)"
    unfolding default_messages handle_message_def
    by (simp add: ABORT_def default_messages message_type_def MESSAGE_TYPE_MAP_def)
qed

text \<open>The theorem at the message \<^verbatim>\<open>[2, 7, {}]\<close> and an empty queue.\<close>

theorem handle_message_lifecycle_witness:
  "fst (handle_message sample_init sample_process (MessageHandler_init None)
          [JInt 2, JInt 7, JDict []] (sample_session None []))
     = Inr ()
   \<and> message_queue (snd (handle_message sample_init sample_process (MessageHandler_init None)
          [JInt 2, JInt 7, JDict []] (sample_session None [])))
     = [[JInt 2, JInt 7, JDict []]]"
proof -
  let ?s = "sample_session None []"
  from handle_message_lifecycle [of 2 sample_init "[JInt 7, JDict []]" sample_process ?s]
  obtain cls where
    "messages (MessageHandler_init None) 2 = Some cls"
    and h: "\<forall>obj s'. construct sample_init cls [JInt 2, JInt 7, JDict []] = Inr obj
               \<and> sample_process obj [JInt 2, JInt 7, JDict []] ?s = (Inr (), s') \<longrightarrow>
               handle_message sample_init sample_process (MessageHandler_init None)
                   [JInt 2, JInt 7, JDict []] ?s
                 = (Inr (), s'\<lparr>message_queue := message_queue s' @ [[JInt 2, JInt 7, JDict []]]\<rparr>)"
    by (auto simp: WELCOME_def)
  then have cls: "cls = Welcome"
    by (simp add: default_messages)
  have "construct sample_init cls [JInt 2, JInt 7, JDict []]
          = Inr (OtherObj Welcome [JInt 2, JInt 7, JDict []])"
    by (simp add: cls construct_def sample_init_def)
  moreover have "sample_process (OtherObj Welcome [JInt 2, JInt 7, JDict []])
          [JInt 2, JInt 7, JDict []] ?s = (Inr (), ?s)"
    by (simp add: sample_process_def)
  ultimately have "handle_message sample_init sample_process (MessageHandler_init None)
                   [JInt 2, JInt 7, JDict []] ?s
                 = (Inr (), ?s\<lparr>message_queue := message_queue ?s @ [[JInt 2, JInt 7, JDict []]]\<rparr>)"
    using h by blast
  then show ?thesis by (simp add: sample_session_def)
qed

text \<open>
  C6 as it is stated fails: on the inbound \<^verbatim>\<open>[3, {}, "wamp.error.no_such_realm"]\<close>
  the default handler raises \<^verbatim>\<open>WampyError\<close> and the queue stays empty.
\<close>

theorem handle_message_abort_counterexample:
  "fst (handle_message sample_init sample_process (MessageHandler_init None)
          [JInt 3, JDict [], JStr ''wamp.error.no_such_realm''] (sample_session None []))
     = Inl WampyError
   \<and> message_queue (snd (handle_message sample_init sample_process (MessageHandler_init None)
          [JInt 3, JDict [], JStr ''wamp.error.no_such_realm''] (sample_session None [])))
     = []"
  by (simp add: handle_message_def default_messages message_type_def MESSAGE_TYPE_MAP_def
        sample_session_def)

text \<open>
  C10. The codes of the default handler are those of WELCOME, CHALLENGE, GOODBYE, ERROR,
  SUBSCRIBED, EVENT, RESULT, REGISTERED, INVOCATION and YIELD. For a message with any of
  these codes, of whatever class, once the message object is constructed and processed
  the handler puts the raw message at the end of the session's queue; and that is the
  queue \<^verbatim>\<open>recv_message\<close> takes from: when processing left the queue empty, the next
  \<^verbatim>\<open>recv_message\<close> returns this message.
\<close>

theorem handle_message_enqueues:
  "dom (messages (MessageHandler_init None)) = {2, 4, 6, 8, 33, 36, 50, 65, 68, 70}
   \<and> (messages (MessageHandler_init None) n = Some cls
        \<and> construct init_obj cls (JInt n # rest) = Inr obj
        \<and> process obj (JInt n # rest) s = (Inr (), s') \<longrightarrow>
        handle_message init_obj process (MessageHandler_init None) (JInt n # rest) s
          = (Inr (), s'\<lparr>message_queue := message_queue s' @ [JInt n # rest]\<rparr>)
        \<and> (message_queue s' = [] \<longrightarrow>
             fst (recv_message t (snd (handle_message init_obj process
                    (MessageHandler_init None) (JInt n # rest) s)))
               = Inr (JInt n # rest)))"
proof (intro conjI impI)
  show "dom (messages (MessageHandler_init None)) = {2, 4, 6, 8, 33, 36, 50, 65, 68, 70}"
    by (rule default_messages_dom)
next
  assume a: "messages (MessageHandler_init None) n = Some cls
        \<and> construct init_obj cls (JInt n # rest) = Inr obj
        \<and> process obj (JInt n # rest) s = (Inr (), s')"
  from a default_messages_known obtain name where name: "message_type (JInt n) = Inr name"
    by blast
  from a name show h: "handle_message init_obj process (MessageHandler_init None) (JInt n # rest) s
          = (Inr (), s'\<lparr>message_queue := message_queue s' @ [JInt n # rest]\<rparr>)"
    by (simp add: handle_message_accepted)
  assume "message_queue s' = []"
  with name show "fst (recv_message t (snd (handle_message init_obj process
                    (MessageHandler_init None) (JInt n # rest) s)))
               = Inr (JInt n # rest)"
    unfolding h by (simp add: recv_message_def wait_for_message_def)
qed

text \<open>The theorem at the RESULT \<^verbatim>\<open>[50, 1, {}, ["2016-01-01"]]\<close> and an empty queue.\<close>

theorem handle_message_enqueues_witness:
  "messages (MessageHandler_init None) 50 = Some Result
   \<and> message_queue (snd (handle_message sample_init sample_process (MessageHandler_init None)
          [JInt 50, JInt 1, JDict [], JList [JStr ''2016-01-01'']] (sample_session None [])))
     = [[JInt 50, JInt 1, JDict [], JList [JStr ''2016-01-01'']]]
   \<and> fst (recv_message 5 (snd (handle_message sample_init sample_process
          (MessageHandler_init None)
          [JInt 50, JInt 1, JDict [], JList [JStr ''2016-01-01'']] (sample_session None []))))
     = Inr [JInt 50, JInt 1, JDict [], JList [JStr ''2016-01-01'']]"
proof -
  let ?s = "sample_session None []"
  let ?r = "[JInt 1, JDict [], JList [JStr ''2016-01-01'']]"
  have m: "messages (MessageHandler_init None) 50 = Some Result"
    by (simp add: default_messages)
  have c: "construct sample_init Result (JInt 50 # ?r) = Inr (OtherObj Result (JInt 50 # ?r))"
    by (simp add: construct_def sample_init_def)
  have p: "sample_process (OtherObj Result (JInt 50 # ?r)) (JInt 50 # ?r) ?s = (Inr (), ?s)"
    by (simp add: sample_process_def)
  have q: "message_queue ?s = []"
    by (simp add: sample_session_def)
  note t = handle_message_enqueues
    [of 50 Result sample_init ?r "OtherObj Result (JInt 50 # ?r)" sample_process ?s ?s 5]
  from t m c p have r1: "handle_message sample_init sample_process (MessageHandler_init None)
              (JInt 50 # ?r) ?s
            = (Inr (), ?s\<lparr>message_queue := message_queue ?s @ [JInt 50 # ?r]\<rparr>)"
    by blast
  from t m c p q have r2: "fst (recv_message 5 (snd (handle_message sample_init sample_process
              (MessageHandler_init None) (JInt 50 # ?r) ?s))) = Inr (JInt 50 # ?r)"
    by blast
  show ?thesis
  proof (intro conjI)
    show "messages (MessageHandler_init None) 50 = Some Result" by (rule m)
    show "message_queue (snd (handle_message sample_init sample_process
            (MessageHandler_init None) (JInt 50 # ?r) ?s)) = [JInt 50 # ?r]"
      unfolding r1 by (simp add: q)
    show "fst (recv_message 5 (snd (handle_message sample_init sample_process
            (MessageHandler_init None) (JInt 50 # ?r) ?s))) = Inr (JInt 50 # ?r)"
      by (rule r2)
  qed
qed

section \<open>The upgrade handshake\<close>

lemma py_join_terminated:
  "xs \<noteq> [] \<Longrightarrow> py_join sep xs @ sep = concat (map (\<lambda>l. l @ sep) xs)"
  by (induction sep xs rule: py_join.induct) auto

text \<open>
  C9. \<^verbatim>\<open>_get_handshake_headers\<close> gives eight lines. For a connection made by
  \<^verbatim>\<open>WebSocket.__init__\<close>, the request that \<^verbatim>\<open>_upgrade\<close> builds is these eight lines in
  this order, each followed by CRLF, and then one more CRLF, the blank line: the GET line
  with the location (its leading slashes removed), Host, Upgrade, Connection,
  Sec-WebSocket-Key with the stripped \<^verbatim>\<open>encodestring\<close> of the sixteen bytes of the
  UUID, Origin, Sec-WebSocket-Version 13 and Sec-WebSocket-Protocol wamp.2.json. When
  \<^verbatim>\<open>_upgrade\<close> returns on a socket that can send, that request is what it has written,
  after what the socket had sent before.
\<close>

theorem handshake_request:
  "length (get_handshake_headers ws) = 8
   \<and> handshake (WebSocket_init encodestring uuid_bytes h p location) =
       concat (map (\<lambda>line. line @ CRLF)
         [''GET /'' @ dropWhile (\<lambda>c. c = CHR ''/'') location @ '' HTTP/1.1'',
          ''Host: '' @ h,
          ''Upgrade: websocket'',
          ''Connection: Upgrade'',
          ''Sec-WebSocket-Key: '' @ py_strip (encodestring uuid_bytes),
          ''Origin: wss://'' @ h,
          ''Sec-WebSocket-Version: 13'',
          ''Sec-WebSocket-Protocol: wamp.2.json''])
       @ CRLF
   \<and> (case upgrade to_int (ws\<lparr>socket := Some (k\<lparr>send_fails := False\<rparr>)\<rparr>) events of
         None \<Rightarrow> True
       | Some (r, ws', rest) \<Rightarrow>
           map_option outbound (socket ws') = Some (outbound k @ [Handshake (handshake ws)]))"
proof (intro conjI)
  show "length (get_handshake_headers ws) = 8"
    by (simp add: get_handshake_headers_def)
  have "get_handshake_headers (WebSocket_init encodestring uuid_bytes h p location) \<noteq> []"
    by (simp add: get_handshake_headers_def)
  from py_join_terminated [OF this, of CRLF]
  show "handshake (WebSocket_init encodestring uuid_bytes h p location) =
       concat (map (\<lambda>line. line @ CRLF)
         [''GET /'' @ dropWhile (\<lambda>c. c = CHR ''/'') location @ '' HTTP/1.1'',
          ''Host: '' @ h,
          ''Upgrade: websocket'',
          ''Connection: Upgrade'',
          ''Sec-WebSocket-Key: '' @ py_strip (encodestring uuid_bytes),
          ''Origin: wss://'' @ h,
          ''Sec-WebSocket-Version: 13'',
          ''Sec-WebSocket-Protocol: wamp.2.json''])
       @ CRLF"
    unfolding handshake_def
    by (simp add: get_handshake_headers_def WebSocket_init_def WEBSOCKET_VERSION_def
          WEBSOCKET_SUBPROTOCOLS_def)
  have "handshake (ws\<lparr>socket := Some (k\<lparr>send_fails := False\<rparr>)\<rparr>) = handshake ws"
    by (simp add: handshake_def get_handshake_headers_def)
  then show "case upgrade to_int (ws\<lparr>socket := Some (k\<lparr>send_fails := False\<rparr>)\<rparr>) events of
         None \<Rightarrow> True
       | Some (r, ws', rest) \<Rightarrow>
           map_option outbound (socket ws') = Some (outbound k @ [Handshake (handshake ws)])"
    by (auto simp: upgrade_def Let_def split: option.splits sum.splits prod.splits)
qed

lemma CR_neq_LF [simp]: "CR \<noteq> LF" "LF \<noteq> CR"
  by (simp_all add: CR_def LF_def)

lemma recv_line_complete:
  "LF \<notin> set l \<Longrightarrow>
   recv_handshake_response_by_line acc (map Data (l @ [LF]) @ later) = (Inr (acc @ l @ [LF]), later)"
  by (induction l arbitrary: acc) auto

lemma is_space_simps [simp]: "is_space CR" "is_space LF" "is_space (CHR '' '')" "\<not> is_space (CHR ''H'')"
  by (simp_all add: is_space_def CR_def LF_def)

lemma py_strip_status_line:
  assumes "tok \<noteq> []" and "\<forall>c \<in> set tok. \<not> is_space c"
  shows "py_strip (''HTTP/1.1 '' @ tok @ [CR, LF]) = ''HTTP/1.1 '' @ tok"
proof -
  from assms(1) obtain ys y where tok: "tok = ys @ [y]"
    by (cases tok rule: rev_cases) auto
  with assms(2) have "\<not> is_space y" by simp
  then show ?thesis
    by (simp add: py_strip_def tok)
qed

lemma py_split_no_sep: "sep \<notin> set t \<Longrightarrow> py_split sep n t = [t]"
  by (induction t) auto

lemma py_split_status_line:
  assumes "\<forall>c \<in> set tok. \<not> is_space c"
  shows "py_split (CHR '' '') 2 (''HTTP/1.1 '' @ tok) = [''HTTP/1.1'', tok]"
proof -
  from assms have "CHR '' '' \<notin> set tok" by auto
  then show ?thesis by (simp add: py_split_no_sep)
qed

lemma read_handshake_status_only:
  assumes "to_int tok = Some n" and "tok \<noteq> []" and "\<forall>c \<in> set tok. \<not> is_space c"
  shows "read_handshake_response to_int (map Data (''HTTP/1.1 '' @ tok @ CRLF @ CRLF) @ later)
           None Map.empty
         = Some (Inr (Some n, [''status_info'' \<mapsto> StatusInfo [''HTTP/1.1'', tok],
                              ''status'' \<mapsto> Status n]), later)"
proof -
  define line where "line = ''HTTP/1.1 '' @ tok @ [CR, LF]"
  define rest where "rest = map Data ([CR] @ [LF]) @ later"
  from assms(3) have "LF \<notin> set tok"
    using is_space_simps(2) by blast
  then have nolf: "LF \<notin> set (''HTTP/1.1 '' @ tok @ [CR])"
    by (simp add: LF_def CR_def)
  have ev: "map Data (''HTTP/1.1 '' @ tok @ CRLF @ CRLF) @ later
      = map Data ((''HTTP/1.1 '' @ tok @ [CR]) @ [LF]) @ rest"
    by (simp add: CRLF_def rest_def)
  have l1: "recv_handshake_response_by_line [] (map Data (''HTTP/1.1 '' @ tok @ CRLF @ CRLF) @ later)
      = (Inr line, rest)"
    unfolding ev using recv_line_complete [OF nolf, of "[]" rest] by (simp add: line_def)
  have l2: "recv_handshake_response_by_line [] rest = (Inr [CR, LF], later)"
    unfolding rest_def using recv_line_complete [of "[CR]" "[]" later] by simp
  have second: "read_handshake_response to_int rest st hdrs = Some (Inr (st, hdrs), later)"
    for st hdrs
    by (subst read_handshake_response.simps) (simp add: l2)
  have strip: "py_strip line = ''HTTP/1.1 '' @ tok"
    unfolding line_def by (rule py_strip_status_line [OF assms(2,3)])
  have split: "py_split (CHR '' '') 2 (''HTTP/1.1 '' @ tok) = [''HTTP/1.1'', tok]"
    by (rule py_split_status_line [OF assms(3)])
  have notend: "line \<noteq> [CR, LF]" "line \<noteq> [LF]"
    by (simp_all add: line_def)
  show ?thesis
    apply (subst read_handshake_response.simps)
    apply (simp only: l1 prod.case sum.case notend strip split)
    apply (simp add: assms(1) second)
    done
qed

text \<open>
  The response that is a status line \<^verbatim>\<open>HTTP/1.1 tok\<close> and the blank line, for any text
  \<open>tok\<close> without whitespace that \<^verbatim>\<open>int\<close> reads as \<open>n\<close>: the connection is
  established with the status \<open>n\<close>.
\<close>

lemma session_connect_bare_status:
  assumes "to_int tok = Some n" and "tok \<noteq> []" and "\<forall>c \<in> set tok. \<not> is_space c"
  shows "\<exists>s'. session_connect None to_int s
                 (map Data (''HTTP/1.1 '' @ tok @ CRLF @ CRLF) @ later) = Some (Inr (), s', later)
              \<and> status (transport s') = Some n
              \<and> connection s' \<and> managed_thread s' = Some True"
  using read_handshake_status_only [of to_int tok n later, OF assms]
  by (simp add: session_connect_def connect_def tcp_connect_def upgrade_def)

text \<open>
  The loop on a response in general: at the blank line it returns what it holds; header
  lines that it passes over leave a status other than 0 as it is; and a status line
  before them sets the status.
\<close>

lemma py_strip_terminator [simp]: "py_strip [CR, LF] = []" "py_strip [LF] = []"
  by (simp_all add: py_strip_def)




lemma handshake_bare_status:
  assumes "to_int tok = Some n" and "tok \<noteq> []" and "\<forall>c \<in> set tok. \<not> is_space c"
  shows "status_token ((''HTTP/1.1 '' @ tok @ [CR]) @ [LF]) = Some tok"
  using py_strip_status_line [OF assms(2,3)] py_split_status_line [OF assms(3)] assms(2)
  by (simp add: status_token_def)




text \<open>
  When the peer closes before the blank line, every further line is empty and the loop of
  \<^verbatim>\<open>_read_handshake_response\<close> never ends.
\<close>

lemma read_handshake_closed_early:
  "read_handshake_response to_int [] st hdrs = None"
proof -
  have ne: "events \<noteq> []"
    if a: "read_handshake_response to_int events st hdrs = Some y" for to_int events st hdrs y
  proof (rule read_handshake_response.raw_induct
            [where P = "\<lambda>to_int events st hdrs y. events \<noteq> []", OF _ a])
    fix f :: "(string \<Rightarrow> int option) \<Rightarrow> recv_event list \<Rightarrow> int option \<Rightarrow>
              (string \<rightharpoonup> header_value) \<Rightarrow>
              ((error + int option \<times> (string \<rightharpoonup> header_value)) \<times> recv_event list) option"
    fix ti ev s h r
    assume ih: "\<And>ti ev s h r. f ti ev s h = Some r \<Longrightarrow> ev \<noteq> []"
    assume body: "(case recv_handshake_response_by_line [] ev of
      (Inl e, rest) \<Rightarrow> Some (Inl e, rest)
      | (Inr line, rest) \<Rightarrow>
          if line = [CR, LF] \<or> line = [LF] then Some (Inr (s, h), rest)
          else if py_strip line = []
               then f ti rest s h
               else if s = None \<or> s = Some 0
                    then case nth_opt (py_split (CHR '' '') 2 (py_strip line)) 1 of
                         None \<Rightarrow> Some (Inl IndexError, rest)
                         | Some tok \<Rightarrow>
                             case ti tok of
                             None \<Rightarrow> Some (Inl ValueError, rest)
                             | Some n \<Rightarrow>
                                 f ti rest (Some n)
                                  (h(''status_info'' \<mapsto> StatusInfo (py_split (CHR '' '') 2 (py_strip line)),
                                     ''status'' \<mapsto> Status n))
                    else case py_split (CHR '':'') 1 (py_strip line) of
                         [k, v] \<Rightarrow> f ti rest s (h(py_lower k \<mapsto> Field (py_lower (py_strip v))))
                         | _ \<Rightarrow> Some (Inl InvalidHeader, rest)) = Some r"
    show "ev \<noteq> []"
    proof
      assume "ev = []"
      with body have "f ti [] s h = Some r"
        by (simp add: py_strip_def)
      with ih show False by blast
    qed
  qed
  show ?thesis
    using ne [of to_int "[]" st hdrs] by (cases "read_handshake_response to_int [] st hdrs") auto
qed

section \<open>Loss of the connection\<close>

lemma read_frame_loop_incomplete:
  assumes "\<forall>i. 0 < i \<and> i \<le> length pre \<longrightarrow> sf (acc @ take i pre) = Inl IncompleteFrameError"
  shows "read_frame_loop sf acc (map Data pre @ tail) = read_frame_loop sf (acc @ pre) tail"
  using assms
proof (induction pre arbitrary: acc)
  case Nil
  then show ?case by simp
next
  case (Cons c pre)
  from Cons.prems have first: "sf (acc @ [c]) = Inl IncompleteFrameError"
    by (metis One_nat_def Suc_leI length_greater_0_conv list.distinct(1) take0 take_Suc_Cons zero_less_one)
  have "\<forall>i. 0 < i \<and> i \<le> length pre \<longrightarrow> sf ((acc @ [c]) @ take i pre) = Inl IncompleteFrameError"
  proof (intro allI impI)
    fix i assume "0 < i \<and> i \<le> length pre"
    then have "0 < Suc i \<and> Suc i \<le> length (c # pre)" by simp
    with Cons.prems have "sf (acc @ take (Suc i) (c # pre)) = Inl IncompleteFrameError" by blast
    then show "sf ((acc @ [c]) @ take i pre) = Inl IncompleteFrameError" by simp
  qed
  from Cons.IH [OF this] first show ?case by simp
qed

text \<open>
  C7, as the code has it. The socket has delivered the bytes \<open>pre\<close>, no prefix of which
  is a complete frame. When the next read raises, whatever the exception,
  \<^verbatim>\<open>read_websocket_frame\<close> raises \<^verbatim>\<open>ConnectionError\<close>; when instead the peer has
  closed the socket and the read returns no bytes, it raises \<^verbatim>\<open>WampProtocolError\<close>. On
  either error the dispatcher's loop stops by \<^verbatim>\<open>break\<close>, having handled nothing and
  leaving the session as it was.
\<close>

theorem connection_loss:
  assumes "socket (transport s) = Some k"
    and "\<forall>i. 0 < i \<and> i \<le> length pre \<longrightarrow> sf (take i pre) = Inl IncompleteFrameError"
  shows "read_websocket_frame sf (transport s) (map Data pre @ Raises e # later)
           = (Inl ConnectionError, later)
       \<and> read_websocket_frame sf (transport s) (map Data pre) = (Inl WampProtocolError, [])
       \<and> connection_handler sf mh (map Data pre @ Raises e # later) s = (Stopped, later, s)
       \<and> connection_handler sf mh (map Data pre) s = (Stopped, [], s)"
proof -
  from assms(2) have inc:
    "\<forall>i. 0 < i \<and> i \<le> length pre \<longrightarrow> sf ([] @ take i pre) = Inl IncompleteFrameError"
    by simp
  have a: "read_websocket_frame sf (transport s) (map Data pre @ Raises e # later)
           = (Inl ConnectionError, later)"
    using assms(1) read_frame_loop_incomplete [OF inc, of "Raises e # later"]
    by (simp add: read_websocket_frame_def)
  have b: "read_websocket_frame sf (transport s) (map Data pre) = (Inl WampProtocolError, [])"
    using assms(1) read_frame_loop_incomplete [OF inc, of "[]"]
    by (simp add: read_websocket_frame_def)
  have c: "connection_handler sf mh (map Data pre @ Raises e # later) s = (Stopped, later, s)"
    by (subst connection_handler.simps) (simp add: a caught_def)
  have d: "connection_handler sf mh (map Data pre) s = (Stopped, [], s)"
    by (subst connection_handler.simps) (simp add: b caught_def)
  show ?thesis
    using a b c d by simp
qed

text \<open>The theorem at one byte followed by a timeout of the socket.\<close>

theorem connection_loss_witness:
  "socket (transport (sample_session None []))
     = Some \<lparr>outbound = [], send_fails = False, closed = False\<rparr>
   \<and> sample_ServerFrame ''x'' = Inl IncompleteFrameError
   \<and> fst (read_websocket_frame sample_ServerFrame (transport (sample_session None []))
         [Data (CHR ''x''), Raises SocketTimeout]) = Inl ConnectionError
   \<and> fst (connection_handler sample_ServerFrame
            (handle_message sample_init sample_process (MessageHandler_init None))
            [Data (CHR ''x''), Raises SocketTimeout] (sample_session None [])) = Stopped"
proof -
  let ?s = "sample_session None []"
  have k: "socket (transport ?s) = Some \<lparr>outbound = [], send_fails = False, closed = False\<rparr>"
    by (simp add: sample_session_def sample_transport_def)
  have x: "sample_ServerFrame ''x'' = Inl IncompleteFrameError"
    by (simp add: sample_ServerFrame_def)
  have inc: "\<forall>i. 0 < i \<and> i \<le> length ''x'' \<longrightarrow>
      sample_ServerFrame (take i ''x'') = Inl IncompleteFrameError"
    by (simp add: sample_ServerFrame_def)
  from connection_loss [OF k inc, of SocketTimeout "[]"
      "handle_message sample_init sample_process (MessageHandler_init None)"] k x
  show ?thesis by simp
qed

text \<open>
  C7 as it is stated fails: when the peer has closed the socket,
  \<^verbatim>\<open>read_websocket_frame\<close> raises \<^verbatim>\<open>WampProtocolError\<close>, not \<^verbatim>\<open>ConnectionError\<close>.
\<close>

theorem peer_close_counterexample:
  "fst (read_websocket_frame sample_ServerFrame (transport (sample_session None [])) [])
     = Inl WampProtocolError"
  by (simp add: read_websocket_frame_def sample_session_def sample_transport_def)

end
